theory Spec2Isabelle
  imports Main "HOL-Library.Word"
begin

section \<open>Data model\<close>

text \<open>
  The program is a Go Lambda handler that validates a user against DynamoDB, checks a
  storage quota against S3 and presigns an upload URL. Go's \<open>int\<close> and \<open>int64\<close> are
  64-bit two's complement on the platforms Lambda runs on: both are \<open>64 word\<close>, read
  with \<open>sint\<close> and compared with the signed orders \<open>\<le>s\<close> and \<open><s\<close>; \<open>+\<close> wraps.
\<close>

type_synonym int64 = "64 word"
type_synonym go_int = "64 word"

text \<open>A Go \<open>error\<close> value; \<open>message\<close> is what \<open>err.Error()\<close> returns.\<close>

datatype error = Error (message: string)

text \<open>\<open>type User struct\<close>, the same in both revisions.\<close>

record User =
  Email :: string
  Sub :: string
  CompanyID :: string
  UserName :: string
  FileRequest :: string
  FileSize :: go_int
  Payed :: bool
  ServiceTier :: go_int

record URLSign =
  URL :: string

text \<open>
  \<open>events.APIGatewayProxyRequest\<close>: the handler reads the \<open>Body\<close> field only.
  \<open>events.APIGatewayProxyResponse\<close>: a field left out of a composite literal has Go's
  zero value (\<open>0\<close>, the nil map, the empty string).
\<close>

record APIGatewayProxyRequest =
  RequestBody :: string  \<comment> \<open>the request's \<open>Body\<close>, named apart from the response's\<close>

record APIGatewayProxyResponse =
  StatusCode :: int
  Headers :: "(string \<times> string) list"
  Body :: string

subsection \<open>The backends\<close>

text \<open>
  A DynamoDB item is a map from attribute names to attribute values; an S3 listing is
  the sequence of pages the service delivers for one list request, followed
  by the error that ended the enumeration, if any. S3 gives every listed object its
  \<open>Size\<close>, so the pointer the code dereferences is taken as set. Calls to \<open>log\<close> are
  left out: they change no result.
\<close>

datatype AttributeValue = AttrS string | AttrN string | AttrBOOL bool

type_synonym Item = "(string \<times> AttributeValue) list"

record Object =
  Key :: string
  Size :: int64

record ListObjectsOutput =
  Contents :: "Object list"

record Listing =
  pages :: "ListObjectsOutput list"
  failure :: "error option"

text \<open>\<open>s3.ListObjectsInput\<close>, with the three fields the code sets.\<close>

record ListObjectsInput =
  Bucket :: string
  Prefix :: string
  Delimiter :: string

text \<open>
  Everything the handler calls outside this repository: the AWS session constructor, the
  JSON codec, the process environment, DynamoDB's \<open>GetItem\<close> (table, key), the attribute
  decoder, the S3 listing of a list request, the presigner (bucket, key, minutes of
  validity). Each is a field of the environment, so that every theorem holds for every
  behaviour of the backends.
\<close>

record Env =
  NewSession :: "error option"
  Unmarshal :: "string \<Rightarrow> error + User"
  Marshal :: "URLSign \<Rightarrow> error + string"
  Getenv :: "string \<Rightarrow> string"
  GetItem :: "string \<Rightarrow> string \<Rightarrow> error + Item"
  UnmarshalMap :: "Item \<Rightarrow> error + User"
  S3Listing :: "ListObjectsInput \<Rightarrow> Listing"
  Presign :: "string \<Rightarrow> string \<Rightarrow> nat \<Rightarrow> error + string"

text \<open>The requests sent to the backends, in the order the handler sends them.\<close>

datatype Call =
    GetItemCall string string
  | ListObjectsCall string string
  | ListObjectsPagesCall string string
  | PresignCall string string nat

section \<open>The AWS SDK's list operations\<close>

text \<open>
  \<open>ListObjectsPages\<close> calls \<open>fn(page, lastPage)\<close> on each page in turn and stops when
  \<open>fn\<close> returns false, when the pages are exhausted or when a request fails; it returns
  the error of the failed request. The callback is a closure over the caller's
  variables: here it takes and returns them as the state \<open>s\<close>.
\<close>

fun EachPage ::
  "ListObjectsOutput list \<Rightarrow> error option \<Rightarrow>
   (ListObjectsOutput \<Rightarrow> bool \<Rightarrow> 's \<Rightarrow> 's \<times> bool) \<Rightarrow> 's \<Rightarrow> 's \<times> error option" where
  "EachPage [] err fn s = (s, err)"
| "EachPage (page # rest) err fn s =
     (case fn page (rest = [] \<and> err = None) s of
        (s', continue) \<Rightarrow> if continue then EachPage rest err fn s' else (s', None))"

definition ListObjectsPages ::
  "Listing \<Rightarrow> (ListObjectsOutput \<Rightarrow> bool \<Rightarrow> 's \<Rightarrow> 's \<times> bool) \<Rightarrow> 's \<Rightarrow> 's \<times> error option" where
  "ListObjectsPages listing fn s = EachPage (pages listing) (failure listing) fn s"

text \<open>\<open>ListObjects\<close> is one request: the first page, or the error and an empty output.\<close>

definition ListObjects :: "Listing \<Rightarrow> ListObjectsOutput \<times> error option" where
  "ListObjects listing =
     (case pages listing of
        page # rest \<Rightarrow> (page, None)
      | [] \<Rightarrow> (\<lparr>Contents = []\<rparr>, failure listing))"

section \<open>The revision with paginated usage accounting (src/unnamed/part_000)\<close>

text \<open>
  The body of the callback of \<open>calculateObjectSize\<close>: the closure's variables are
  \<open>pageNum\<close> and \<open>totalSize\<close>; it always returns true.
\<close>

definition pageCallback ::
  "ListObjectsOutput \<Rightarrow> bool \<Rightarrow> go_int \<times> int64 \<Rightarrow> (go_int \<times> int64) \<times> bool" where
  "pageCallback page lastPage s =
     (case s of (pageNum, totalSize) \<Rightarrow>
        ((pageNum + 1, fold (\<lambda>value total. total + Size value) (Contents page) totalSize),
         True))"

text \<open>
  \<open>calculateObjectSize\<close>: the value \<open>ListObjectsPages\<close> returns is dropped, as in the
  source.
\<close>

definition calculateObjectSize :: "Env \<Rightarrow> User \<Rightarrow> int64 \<times> Call list" where
  "calculateObjectSize env user =
     (let inputparams = \<lparr>Bucket = Getenv env ''BUCKET'',
                          Prefix = CompanyID user @ ''/'',
                          Delimiter = ''/''\<rparr>;
          (s, err) = ListObjectsPages (S3Listing env inputparams) pageCallback (0, 0)
      in (snd s, [ListObjectsPagesCall (Bucket inputparams) (Prefix inputparams)]))"

definition verifyUserGrants :: "Env \<Rightarrow> User \<Rightarrow> (bool \<times> error option) \<times> Call list" where
  "verifyUserGrants env user =
     (let (totalSize, calls) = calculateObjectSize env user;
          maxSize =
            (if ServiceTier user = 0 then 10000000
             else if ServiceTier user = 1 then 40000000000
             else if ServiceTier user = 2 then 1000000000000
             else 10000000) :: int64
      in if ServiceTier user = 0 then
           (if maxSize \<le>s totalSize \<or> maxSize <s totalSize + FileSize user
            then ((False, Some (Error ''Maximum amount of stored data exceeded'')), calls)
            else ((True, None), calls))
         else if ServiceTier user = 2 then
           (if maxSize \<le>s totalSize \<or> maxSize <s totalSize + FileSize user
            then ((False, Some (Error ''Maximum amount of stored data exceeded'')), calls)
            else ((True, None), calls))
         else ((False, None), calls))"

text \<open>
  \<open>validateUser\<close> has a pointer receiver: the user it has updated is returned with the
  result.
\<close>

definition validateUser ::
  "Env \<Rightarrow> User \<Rightarrow> (bool \<times> error option) \<times> User \<times> Call list" where
  "validateUser env user =
     (let table = Getenv env ''DYNAMO_TABLE'';
          c1 = [GetItemCall table (Sub user)]
      in case GetItem env table (Sub user) of
           Inl err \<Rightarrow> ((False, Some err), user, c1)
         | Inr item \<Rightarrow>
             if length item = 0 then ((False, Some (Error ''User not found'')), user, c1)
             else
               (case UnmarshalMap env item of
                  Inl err \<Rightarrow> ((False, Some err), user, c1)
                | Inr dUser \<Rightarrow>
                    (let user' = user\<lparr>CompanyID := CompanyID dUser,
                                      ServiceTier := ServiceTier dUser,
                                      Payed := Payed dUser\<rparr>;
                         ((grants, err), c2) = verifyUserGrants env user'
                     in if err \<noteq> None then ((False, err), user', c1 @ c2)
                        else if grants \<and> Payed user' then ((True, None), user', c1 @ c2)
                        else ((False, err), user', c1 @ c2))))"

definition signURLForUser :: "Env \<Rightarrow> User \<Rightarrow> (string \<times> error option) \<times> Call list" where
  "signURLForUser env user =
     (let bucket = ''rsmachiner-user-code'';
          key = CompanyID user @ ''/'' @ FileRequest user;
          expire = 60 * 24 * 5
      in (case Presign env bucket key expire of
            Inl err \<Rightarrow> ('''', Some err)
          | Inr str \<Rightarrow> (str, None),
          [PresignCall bucket key expire]))"

definition HandleRequest ::
  "Env \<Rightarrow> APIGatewayProxyRequest \<Rightarrow> (APIGatewayProxyResponse \<times> error option) \<times> Call list" where
  "HandleRequest env event =
     (case NewSession env of
        Some err \<Rightarrow> ((\<lparr>StatusCode = 0, Headers = [], Body = message err\<rparr>, None), [])
      | None \<Rightarrow>
         (case Unmarshal env (RequestBody event) of
            Inl err \<Rightarrow> ((\<lparr>StatusCode = 400, Headers = [], Body = message err\<rparr>, None), [])
          | Inr user0 \<Rightarrow>
             (let ((valid, err), user, c1) = validateUser env user0
              in if \<not> valid \<or> err \<noteq> None then
                   (case err of
                      Some e \<Rightarrow>
                        ((\<lparr>StatusCode = 400, Headers = [], Body = message e\<rparr>, None), c1)
                    | None \<Rightarrow>
                        ((\<lparr>StatusCode = 400, Headers = [],
                           Body = ''Invalid User Request''\<rparr>, None), c1))
                 else
                   (let ((url, err), c2) = signURLForUser env user
                    in if url = '''' \<or> err \<noteq> None then
                         (case err of
                            Some e \<Rightarrow>
                              ((\<lparr>StatusCode = 400, Headers = [], Body = message e\<rparr>, None),
                               c1 @ c2)
                          | None \<Rightarrow>
                              ((\<lparr>StatusCode = 400, Headers = [],
                                 Body = ''Unable to sign URL''\<rparr>, None), c1 @ c2))
                       else
                         (case Marshal env \<lparr>URL = url\<rparr> of
                            Inl e \<Rightarrow>
                              ((\<lparr>StatusCode = 400, Headers = [], Body = message e\<rparr>, None),
                               c1 @ c2)
                          | Inr data \<Rightarrow>
                              ((\<lparr>StatusCode = 200,
                                 Headers = [(''Access-Control-Allow-Origin'', ''*''),
                                            (''Access-Control-Allow-Methods'', ''*'')],
                                 Body = data\<rparr>, None), c1 @ c2))))))"

section \<open>The earlier revision (src/main.go)\<close>

text \<open>
  The functions of \<open>src/main.go\<close> carry the suffix \<open>_main\<close>. There \<open>validateUser\<close>
  compares the stored \<open>sub\<close> with the request's and does not call \<open>verifyUserGrants\<close>,
  which no function of that file calls.
\<close>

definition validateUser_main ::
  "Env \<Rightarrow> User \<Rightarrow> (bool \<times> error option) \<times> User \<times> Call list" where
  "validateUser_main env user =
     (let table = Getenv env ''DYNAMO_TABLE'';
          c1 = [GetItemCall table (Sub user)]
      in case GetItem env table (Sub user) of
           Inl err \<Rightarrow> ((False, Some err), user, c1)
         | Inr item \<Rightarrow>
             if length item = 0 then ((False, Some (Error ''User not found'')), user, c1)
             else
               (case UnmarshalMap env item of
                  Inl err \<Rightarrow> ((False, Some err), user, c1)
                | Inr dUser \<Rightarrow>
                    if Sub dUser = Sub user then
                      ((True, None),
                       user\<lparr>CompanyID := CompanyID dUser,
                            ServiceTier := ServiceTier dUser,
                            Payed := Payed dUser\<rparr>, c1)
                    else ((False, Some (Error ''User invalid'')), user, c1)))"

definition verifyUserGrants_main :: "Env \<Rightarrow> User \<Rightarrow> (bool \<times> error option) \<times> Call list" where
  "verifyUserGrants_main env user =
     (let bucket = ''rsmachiner-user-code'';
          prefix = CompanyID user @ ''/'';
          calls = [ListObjectsCall bucket prefix];
          (objects, err) =
            ListObjects (S3Listing env \<lparr>Bucket = bucket, Prefix = prefix, Delimiter = ''/''\<rparr>);
          totalSize = fold (\<lambda>object total. total + Size object) (Contents objects) (0 :: int64)
      in if ServiceTier user = 0 then
           (if 10000000 <s FileSize user
            then ((False, Some (Error ''File size exceeded tier limit'')), calls)
            else if 5 < length (Contents objects)
            then ((False, Some (Error ''Number of files in tier exceeded'')), calls)
            else ((True, None), calls))
         else if ServiceTier user = 1 then
           (if 42949672960 \<le>s totalSize \<or> 42949672960 <s totalSize + FileSize user
            then ((False, Some (Error ''Maximum amount of stored data exceeded'')), calls)
            else ((True, None), calls))
         else if ServiceTier user = 2 then ((False, None), calls)
         else ((False, None), calls))"

definition signURLForUser_main :: "Env \<Rightarrow> User \<Rightarrow> (string \<times> error option) \<times> Call list" where
  "signURLForUser_main env user =
     (let bucket = ''rsmachiner-user-code'';
          key = CompanyID user @ ''/'' @ FileRequest user;
          expire = 5
      in (case Presign env bucket key expire of
            Inl err \<Rightarrow> ('''', Some err)
          | Inr str \<Rightarrow> (str, None),
          [PresignCall bucket key expire]))"

definition HandleRequest_main ::
  "Env \<Rightarrow> APIGatewayProxyRequest \<Rightarrow> (APIGatewayProxyResponse \<times> error option) \<times> Call list" where
  "HandleRequest_main env event =
     (case NewSession env of
        Some err \<Rightarrow> ((\<lparr>StatusCode = 0, Headers = [], Body = message err\<rparr>, None), [])
      | None \<Rightarrow>
         (case Unmarshal env (RequestBody event) of
            Inl err \<Rightarrow> ((\<lparr>StatusCode = 400, Headers = [], Body = message err\<rparr>, None), [])
          | Inr user0 \<Rightarrow>
             (let ((valid, err), user, c1) = validateUser_main env user0
              in if \<not> valid \<or> err \<noteq> None then
                   (case err of
                      Some e \<Rightarrow>
                        ((\<lparr>StatusCode = 400, Headers = [], Body = message e\<rparr>, None), c1)
                    | None \<Rightarrow>
                        ((\<lparr>StatusCode = 400, Headers = [],
                           Body = ''Invalid User Request''\<rparr>, None), c1))
                 else
                   (let ((url, err), c2) = signURLForUser_main env user
                    in if url = '''' \<or> err \<noteq> None then
                         (case err of
                            Some e \<Rightarrow>
                              ((\<lparr>StatusCode = 400, Headers = [], Body = message e\<rparr>, None),
                               c1 @ c2)
                          | None \<Rightarrow>
                              ((\<lparr>StatusCode = 400, Headers = [],
                                 Body = ''Unable to sign URL''\<rparr>, None), c1 @ c2))
                       else
                         (case Marshal env \<lparr>URL = url\<rparr> of
                            Inl e \<Rightarrow>
                              ((\<lparr>StatusCode = 400, Headers = [], Body = message e\<rparr>, None),
                               c1 @ c2)
                          | Inr data \<Rightarrow>
                              ((\<lparr>StatusCode = 200, Headers = [], Body = data\<rparr>, None),
                               c1 @ c2))))))"

section \<open>The quota rule as the specification words it\<close>

text \<open>
  The ceiling table of the specification (bytes; an unrecognised tier has the Free
  ceiling) and its uniform decision rule, on unbounded integers: \<open>spec_decide\<close> is true
  when the rule allows the upload.
\<close>

definition spec_ceiling :: "int \<Rightarrow> int" where
  "spec_ceiling tier =
     (if tier = 1 then 40000000000 else if tier = 2 then 1000000000000 else 10000000)"

definition spec_decide :: "int \<Rightarrow> int \<Rightarrow> int \<Rightarrow> bool" where
  "spec_decide tier usage fileSize =
     (if spec_ceiling tier \<le> usage \<or> spec_ceiling tier < usage + fileSize then False else True)"

section \<open>A concrete deployment\<close>

text \<open>
  One stored account (\<open>sub-1\<close> of company \<open>acme\<close>) and a handful of request bodies, to
  run the handler on. The stand-ins for the codecs read the bodies and the item below
  and nothing else.
\<close>

definition storedItem :: "go_int \<Rightarrow> bool \<Rightarrow> Item" where
  "storedItem tier paid =
     [(''sub'', AttrS ''sub-1''), (''company_id'', AttrS ''acme''),
      (''service_tier'', AttrN (if tier = 0 then ''0'' else if tier = 1 then ''1''
                                else if tier = 2 then ''2'' else ''99'')),
      (''payed'', AttrBOOL paid)]"

definition request :: "string \<Rightarrow> go_int \<Rightarrow> User" where
  "request company fileSize =
     \<lparr>Email = ''a@acme.example'', Sub = ''sub-1'', CompanyID = company, UserName = ''alice'',
      FileRequest = ''part.gcode'', FileSize = fileSize, Payed = False, ServiceTier = 0\<rparr>"

definition decodeBody :: "string \<Rightarrow> error + User" where
  "decodeBody body =
     (if body = ''size=1'' then Inr (request '''' 1)
      else if body = ''size=1,company_id=evil'' then Inr (request ''evil'' 1)
      else if body = ''size=-1'' then Inr (request '''' (- 1))
      else if body = ''size=5000000'' then Inr (request '''' 5000000)
      else if body = ''size=20000000'' then Inr (request '''' 20000000)
      else if body = ''size=9223372036854775807'' then Inr (request '''' 9223372036854775807)
      else if body = ''sub=nobody'' then Inr ((request '''' 1)\<lparr>Sub := ''nobody''\<rparr>)
      else if body = ''size=1,file_request=jobs/part.gcode''
        then Inr ((request '''' 1)\<lparr>FileRequest := ''jobs/part.gcode''\<rparr>)
      else Inl (Error ''unexpected end of JSON input''))"

definition decodeItem :: "Item \<Rightarrow> error + User" where
  "decodeItem item =
     Inr \<lparr>Email = '''',
          Sub = (case map_of item ''sub'' of Some (AttrS s) \<Rightarrow> s | _ \<Rightarrow> ''''),
          CompanyID = (case map_of item ''company_id'' of Some (AttrS s) \<Rightarrow> s | _ \<Rightarrow> ''''),
          UserName = '''', FileRequest = '''', FileSize = 0,
          Payed = (case map_of item ''payed'' of Some (AttrBOOL b) \<Rightarrow> b | _ \<Rightarrow> False),
          ServiceTier =
            (case map_of item ''service_tier'' of
               Some (AttrN n) \<Rightarrow>
                 if n = ''0'' then 0 else if n = ''1'' then 1 else if n = ''2'' then 2 else 99
             | _ \<Rightarrow> 0)\<rparr>"

definition deployment :: "go_int \<Rightarrow> bool \<Rightarrow> Listing \<Rightarrow> Env" where
  "deployment tier paid listing =
     \<lparr>NewSession = None,
      Unmarshal = decodeBody,
      Marshal = (\<lambda>signed. Inr (''{url:'' @ URL signed @ ''}'')),
      Getenv = (\<lambda>name. if name = ''BUCKET'' then ''rsmachiner-user-code''
                        else if name = ''DYNAMO_TABLE'' then ''users'' else ''''),
      GetItem = (\<lambda>table sub. if table = ''users'' \<and> sub = ''sub-1''
                              then Inr (storedItem tier paid) else Inr []),
      UnmarshalMap = decodeItem,
      S3Listing = (\<lambda>input. if Bucket input = ''rsmachiner-user-code'' \<and> Prefix input = ''acme/''
                           then listing
                           else \<lparr>pages = [\<lparr>Contents = []\<rparr>], failure = None\<rparr>),
      Presign = (\<lambda>bucket key minutes. Inr (''https://s3.example/'' @ bucket @ ''/'' @ key))\<rparr>"

definition objectsOfSize :: "nat \<Rightarrow> int64 \<Rightarrow> ListObjectsOutput" where
  "objectsOfSize n bytes = \<lparr>Contents = replicate n \<lparr>Key = ''acme/part.gcode'', Size = bytes\<rparr>\<rparr>"

definition emptyNamespace :: Listing where
  "emptyNamespace = \<lparr>pages = [\<lparr>Contents = []\<rparr>], failure = None\<rparr>"

text \<open>The objects a listing enumerates, over all its pages, and the calls that sign.\<close>

definition enumerated :: "Listing \<Rightarrow> Object list" where
  "enumerated listing = concat (map Contents (pages listing))"

fun isPresignCall :: "Call \<Rightarrow> bool" where
  "isPresignCall (PresignCall bucket key minutes) = True"
| "isPresignCall (GetItemCall table sub) = False"
| "isPresignCall (ListObjectsCall bucket prefix) = False"
| "isPresignCall (ListObjectsPagesCall bucket prefix) = False"

definition presignCalls :: "Call list \<Rightarrow> Call list" where
  "presignCalls calls = filter isPresignCall calls"

text \<open>The same backends, with every listing's enumeration ending without an error.\<close>

definition withoutFailures :: "Env \<Rightarrow> Env" where
  "withoutFailures env =
     env\<lparr>S3Listing := \<lambda>input. (S3Listing env input)\<lparr>failure := None\<rparr>\<rparr>"

text \<open>The list request \<open>calculateObjectSize\<close> sends for a user.\<close>

definition listRequest :: "Env \<Rightarrow> User \<Rightarrow> ListObjectsInput" where
  "listRequest env user =
     \<lparr>Bucket = Getenv env ''BUCKET'', Prefix = CompanyID user @ ''/'', Delimiter = ''/''\<rparr>"

subsection \<open>What S3 lists for a prefix and a delimiter\<close>

text \<open>
  S3's documented answer to a list request on a bucket holding \<open>objects\<close>: \<open>Contents\<close>
  has the objects whose key begins with the prefix and, when a delimiter is given, does
  not contain the delimiter after the prefix. The other keys under the prefix are
  rolled up into \<open>CommonPrefixes\<close>, which the code does not read.
\<close>

definition hasPrefix :: "string \<Rightarrow> string \<Rightarrow> bool" where
  "hasPrefix p key = (take (length p) key = p)"

fun contains :: "string \<Rightarrow> string \<Rightarrow> bool" where
  "contains d [] = (d = [])"
| "contains d (c # cs) = (hasPrefix d (c # cs) \<or> contains d cs)"

definition rolledUp :: "ListObjectsInput \<Rightarrow> string \<Rightarrow> bool" where
  "rolledUp input key =
     (Delimiter input \<noteq> [] \<and> contains (Delimiter input) (drop (length (Prefix input)) key))"

definition s3Contents :: "Object list \<Rightarrow> ListObjectsInput \<Rightarrow> Object list" where
  "s3Contents objects input =
     filter (\<lambda>object. hasPrefix (Prefix input) (Key object) \<and> \<not> rolledUp input (Key object))
       objects"

text \<open>All objects of the bucket under a prefix, and those among them that are rolled up.\<close>

definition underPrefix :: "Object list \<Rightarrow> string \<Rightarrow> Object list" where
  "underPrefix objects p = filter (\<lambda>object. hasPrefix p (Key object)) objects"

definition nestedUnder :: "Object list \<Rightarrow> ListObjectsInput \<Rightarrow> Object list" where
  "nestedUnder objects input =
     filter (\<lambda>object. hasPrefix (Prefix input) (Key object) \<and> rolledUp input (Key object))
       objects"

text \<open>The deployment above on a bucket that holds \<open>objects\<close>, listed in one page.\<close>

definition storeDeployment :: "go_int \<Rightarrow> bool \<Rightarrow> Object list \<Rightarrow> Env" where
  "storeDeployment tier paid objects =
     (deployment tier paid emptyNamespace)
       \<lparr>S3Listing := \<lambda>input. \<lparr>pages = [\<lparr>Contents = s3Contents objects input\<rparr>],
                                failure = None\<rparr>\<rparr>"

section \<open>Usage accounting\<close>

lemma fold_Size:
  "fold (\<lambda>value total. total + Size value) xs (t :: int64) = t + sum_list (map Size xs)"
  by (induction xs arbitrary: t) (simp_all add: add.assoc)

lemma EachPage_pageCallback:
  "EachPage ps err pageCallback (n, t) =
     ((n + of_nat (length ps), t + sum_list (map Size (concat (map Contents ps)))), err)"
  by (induction ps arbitrary: n t)
    (simp_all add: pageCallback_def fold_Size add.assoc add.commute add.left_commute)

lemma calculateObjectSize_eq:
  "calculateObjectSize env user =
     (sum_list (map Size (enumerated
        (S3Listing env (listRequest env user)))),
      [ListObjectsPagesCall (Getenv env ''BUCKET'') (CompanyID user @ ''/'')])"
  by (simp add: calculateObjectSize_def ListObjectsPages_def EachPage_pageCallback Let_def
      enumerated_def listRequest_def)

lemma signed_take_bit_sint64: "signed_take_bit 63 (sint (w :: int64)) = sint w"
  using sint_ge [of w] sint_lt [of w] by (simp add: signed_take_bit_int_eq_self)

lemma sint_sum_list:
  "sint (sum_list ws :: int64) = signed_take_bit 63 (sum_list (map sint ws))"
proof (induction ws)
  case Nil
  show ?case by simp
next
  case (Cons w ws)
  have "sint (sum_list (w # ws)) = signed_take_bit 63 (sint w + sint (sum_list ws))"
    by (simp add: sint_word_ariths)
  also have "\<dots> = signed_take_bit 63
      (signed_take_bit 63 (sint w) + signed_take_bit 63 (sum_list (map sint ws)))"
    by (simp add: Cons.IH signed_take_bit_sint64)
  also have "\<dots> = signed_take_bit 63 (sint w + sum_list (map sint ws))"
    by (rule signed_take_bit_add)
  finally show ?case by simp
qed

lemma sint_add_no_wrap:
  "- (2 ^ 63) \<le> sint a + sint b \<Longrightarrow> sint a + sint b < 2 ^ 63 \<Longrightarrow>
   sint (a + b :: int64) = sint a + sint b"
  by (simp add: sint_word_ariths signed_take_bit_int_eq_self)

lemma calculateObjectSize_withoutFailures:
  "calculateObjectSize (withoutFailures env) user = calculateObjectSize env user"
  by (simp add: calculateObjectSize_eq withoutFailures_def enumerated_def listRequest_def)

lemma withoutFailures_fields:
  "NewSession (withoutFailures env) = NewSession env"
  "Unmarshal (withoutFailures env) = Unmarshal env"
  "Marshal (withoutFailures env) = Marshal env"
  "Getenv (withoutFailures env) = Getenv env"
  "GetItem (withoutFailures env) = GetItem env"
  "UnmarshalMap (withoutFailures env) = UnmarshalMap env"
  "Presign (withoutFailures env) = Presign env"
  by (simp_all add: withoutFailures_def)

section \<open>What the functions return\<close>

subsection \<open>\<open>verifyUserGrants\<close>\<close>

lemma verifyUserGrants_calls:
  "snd (verifyUserGrants env user) =
     [ListObjectsPagesCall (Getenv env ''BUCKET'') (CompanyID user @ ''/'')]"
  by (simp add: verifyUserGrants_def calculateObjectSize_eq Let_def)

lemma verifyUserGrants_error:
  "snd (fst (verifyUserGrants env user)) = None \<or>
   snd (fst (verifyUserGrants env user)) =
     Some (Error ''Maximum amount of stored data exceeded'')"
  by (simp add: verifyUserGrants_def calculateObjectSize_eq Let_def)

lemma verifyUserGrants_granted:
  assumes "fst (fst (verifyUserGrants env u))"
  shows "(ServiceTier u = 0 \<or> ServiceTier u = 2)
    \<and> sint (fst (calculateObjectSize env u)) < spec_ceiling (sint (ServiceTier u))
    \<and> sint (fst (calculateObjectSize env u) + FileSize u) \<le> spec_ceiling (sint (ServiceTier u))"
  using assms
  by (auto simp add: verifyUserGrants_def Let_def spec_ceiling_def word_sle_eq word_sless_alt
      split: prod.splits if_splits)

text \<open>
  On tiers 0 and 2 the code is the specification's rule, as long as usage plus file
  size stays within \<open>int64\<close>.
\<close>

lemma verifyUserGrants_tier_0_2:
  assumes "ServiceTier user = 0 \<or> ServiceTier user = 2"
    and "- (2 ^ 63) \<le> sint (fst (calculateObjectSize env user)) + sint (FileSize user)"
    and "sint (fst (calculateObjectSize env user)) + sint (FileSize user) < 2 ^ 63"
  shows "fst (verifyUserGrants env user) =
    (if spec_decide (sint (ServiceTier user)) (sint (fst (calculateObjectSize env user)))
          (sint (FileSize user))
     then (True, None)
     else (False, Some (Error ''Maximum amount of stored data exceeded'')))"
proof -
  have "sint (fst (calculateObjectSize env user) + FileSize user) =
      sint (fst (calculateObjectSize env user)) + sint (FileSize user)"
    using assms(2,3) by (rule sint_add_no_wrap)
  with assms(1) show ?thesis
    by (auto simp add: verifyUserGrants_def Let_def spec_decide_def spec_ceiling_def
        word_sle_eq word_sless_alt split: prod.splits)
qed

subsection \<open>\<open>validateUser\<close>\<close>

lemma validateUser_not_found:
  "GetItem env (Getenv env ''DYNAMO_TABLE'') (Sub user) = Inr [] \<Longrightarrow>
   validateUser env user =
     ((False, Some (Error ''User not found'')), user,
      [GetItemCall (Getenv env ''DYNAMO_TABLE'') (Sub user)])"
  by (simp add: validateUser_def Let_def)

lemma validateUser_resolved:
  assumes "GetItem env (Getenv env ''DYNAMO_TABLE'') (Sub user) = Inr item"
    and "item \<noteq> []"
    and "UnmarshalMap env item = Inr dUser"
  shows "validateUser env user =
    (let user' = user\<lparr>CompanyID := CompanyID dUser, ServiceTier := ServiceTier dUser,
                       Payed := Payed dUser\<rparr>;
         r = fst (verifyUserGrants env user')
     in ((fst r \<and> snd r = None \<and> Payed dUser, snd r), user',
         [GetItemCall (Getenv env ''DYNAMO_TABLE'') (Sub user),
          ListObjectsPagesCall (Getenv env ''BUCKET'') (CompanyID dUser @ ''/'')]))"
  using assms
    verifyUserGrants_calls [of env "user\<lparr>CompanyID := CompanyID dUser,
      ServiceTier := ServiceTier dUser, Payed := Payed dUser\<rparr>"]
  by (auto simp add: validateUser_def Let_def split: prod.splits)

lemma validateUser_valid:
  "fst (fst (validateUser env user)) \<Longrightarrow>
   \<exists>item dUser. GetItem env (Getenv env ''DYNAMO_TABLE'') (Sub user) = Inr item \<and> item \<noteq> [] \<and>
      UnmarshalMap env item = Inr dUser \<and> Payed dUser \<and>
      snd (fst (validateUser env user)) = None"
  by (auto simp add: validateUser_def Let_def split: sum.splits prod.splits if_splits)

lemma validateUser_no_presign: "presignCalls (snd (snd (validateUser env user))) = []"
proof -
  have v: "presignCalls (snd (verifyUserGrants env u)) = []" for u
    by (simp add: verifyUserGrants_calls presignCalls_def)
  have "verifyUserGrants env u = ((g, e), c) \<Longrightarrow> presignCalls c = []" for u g e c
    using v [of u] by simp
  then show ?thesis
    by (auto simp add: validateUser_def Let_def presignCalls_def split: sum.splits prod.splits)
qed

text \<open>
  The company id of the request reaches neither the result nor the backends; the user
  that is handed on is the same whenever the validation succeeds.
\<close>

lemma validateUser_CompanyID:
  "fst (validateUser env (u\<lparr>CompanyID := c\<rparr>)) = fst (validateUser env u) \<and>
   snd (snd (validateUser env (u\<lparr>CompanyID := c\<rparr>))) = snd (snd (validateUser env u)) \<and>
   (fst (fst (validateUser env u)) \<longrightarrow>
      fst (snd (validateUser env (u\<lparr>CompanyID := c\<rparr>))) = fst (snd (validateUser env u)))"
  by (auto simp add: validateUser_def Let_def split: sum.splits prod.splits)

subsection \<open>\<open>HandleRequest\<close>\<close>

lemma HandleRequest_status:
  "StatusCode (fst (fst (HandleRequest env event))) \<in> {0, 200, 400}"
  by (simp add: HandleRequest_def Let_def split: option.splits sum.splits prod.splits)

lemma HandleRequest_status_with_session:
  "NewSession env = None \<Longrightarrow> StatusCode (fst (fst (HandleRequest env event))) \<in> {200, 400}"
  by (simp add: HandleRequest_def Let_def split: option.splits sum.splits prod.splits)

lemma HandleRequest_rejected:
  assumes "Unmarshal env (RequestBody event) = Inr user"
    and "\<not> (fst (fst (validateUser env user)) \<and> snd (fst (validateUser env user)) = None)"
  shows "StatusCode (fst (fst (HandleRequest env event))) \<noteq> 200
    \<and> presignCalls (snd (HandleRequest env event)) = []"
  using assms validateUser_no_presign [of env user]
  by (auto simp add: HandleRequest_def Let_def presignCalls_def
      split: option.splits sum.splits prod.splits)

lemma HandleRequest_invalid:
  assumes "NewSession env = None"
    and "Unmarshal env (RequestBody event) = Inr user"
    and "\<not> (fst (fst (validateUser env user)) \<and> snd (fst (validateUser env user)) = None)"
  shows "HandleRequest env event =
    ((\<lparr>StatusCode = 400, Headers = [],
       Body = (case snd (fst (validateUser env user)) of
                 Some e \<Rightarrow> message e | None \<Rightarrow> ''Invalid User Request'')\<rparr>, None),
     snd (snd (validateUser env user)))"
  using assms
  by (auto simp add: HandleRequest_def Let_def split: option.splits sum.splits prod.splits)

text \<open>The errors of the identity lookup and of the signer reach the response as they are.\<close>

lemma HandleRequest_lookup_error:
  assumes "NewSession env = None"
    and "Unmarshal env (RequestBody event) = Inr user"
    and "GetItem env (Getenv env ''DYNAMO_TABLE'') (Sub user) = Inl e"
  shows "HandleRequest env event =
    ((\<lparr>StatusCode = 400, Headers = [], Body = message e\<rparr>, None),
     [GetItemCall (Getenv env ''DYNAMO_TABLE'') (Sub user)])"
  using assms by (simp add: HandleRequest_def validateUser_def Let_def)

lemma HandleRequest_decode_item_error:
  assumes "NewSession env = None"
    and "Unmarshal env (RequestBody event) = Inr user"
    and "GetItem env (Getenv env ''DYNAMO_TABLE'') (Sub user) = Inr item"
    and "item \<noteq> []"
    and "UnmarshalMap env item = Inl e"
  shows "HandleRequest env event =
    ((\<lparr>StatusCode = 400, Headers = [], Body = message e\<rparr>, None),
     [GetItemCall (Getenv env ''DYNAMO_TABLE'') (Sub user)])"
  using assms by (simp add: HandleRequest_def validateUser_def Let_def)

lemma HandleRequest_signing_error:
  assumes "NewSession env = None"
    and "Unmarshal env (RequestBody event) = Inr user"
    and "validateUser env user = ((True, None), user', calls)"
    and "Presign env ''rsmachiner-user-code'' (CompanyID user' @ ''/'' @ FileRequest user') 7200
          = Inl e"
  shows "fst (HandleRequest env event) =
    (\<lparr>StatusCode = 400, Headers = [], Body = message e\<rparr>, None)"
  using assms by (simp add: HandleRequest_def signURLForUser_def Let_def)

section \<open>The quota decision\<close>

text \<open>
  C1. The specification's rule is uniform: for every tier, deny with the quota-exceeded
  reason exactly when usage has reached the tier's ceiling or usage plus the file size
  exceeds it, and allow otherwise. \<open>verifyUserGrants\<close> selects a ceiling for every tier
  but applies the rule to tiers 0 and 2 only: for every other tier (tier 1 and every
  unrecognised value) it returns \<open>(false, nil)\<close>, a denial without a reason, whatever the
  usage and the file size are.
\<close>

theorem verifyUserGrants_other_tier_denies:
  "ServiceTier user \<noteq> 0 \<Longrightarrow> ServiceTier user \<noteq> 2 \<Longrightarrow>
   fst (verifyUserGrants env user) = (False, None)"
  by (simp add: verifyUserGrants_def calculateObjectSize_eq Let_def)

text \<open>
  A Standard account with an empty namespace asking for one byte: the rule allows it,
  the code denies it and the handler answers 400 \<open>Invalid User Request\<close>.
\<close>

theorem verifyUserGrants_other_tier_denies_witness:
  "fst (verifyUserGrants (deployment 1 True emptyNamespace)
          ((request ''acme'' 1)\<lparr>ServiceTier := 1\<rparr>)) = (False, None)
   \<and> spec_decide 1 0 1
   \<and> fst (HandleRequest (deployment 1 True emptyNamespace) \<lparr>RequestBody = ''size=1''\<rparr>) =
       (\<lparr>StatusCode = 400, Headers = [], Body = ''Invalid User Request''\<rparr>, None)"
proof -
  have "fst (HandleRequest (deployment 1 True emptyNamespace) \<lparr>RequestBody = ''size=1''\<rparr>) =
       (\<lparr>StatusCode = 400, Headers = [], Body = ''Invalid User Request''\<rparr>, None)"
    by code_simp
  then show ?thesis
    using verifyUserGrants_other_tier_denies
      [of "(request ''acme'' 1)\<lparr>ServiceTier := 1\<rparr>" "deployment 1 True emptyNamespace"]
    by (simp add: spec_decide_def spec_ceiling_def)
qed

section \<open>The entitlement gate\<close>

text \<open>
  C2, as the specification states it: the paid flag is a gate of its own, evaluated
  independently of the quota rule, and the unpaid caller gets a message that tells so.
  In the code the quota check, with its listing of the namespace, runs first and its
  error is returned before \<open>Payed\<close> is read. An unpaid Free account asking for
  20,000,000 bytes gets the quota message, exactly the response of the same account
  when paid; asking for one byte it gets \<open>Invalid User Request\<close>, exactly the response of
  a paid Standard account. No message tells that the account is unpaid, and the
  response of an unpaid account varies with the requested size.
\<close>

theorem unpaid_response_follows_quota_check:
  "HandleRequest (deployment 0 False emptyNamespace) \<lparr>RequestBody = ''size=20000000''\<rparr> =
     ((\<lparr>StatusCode = 400, Headers = [],
        Body = ''Maximum amount of stored data exceeded''\<rparr>, None),
      [GetItemCall ''users'' ''sub-1'',
       ListObjectsPagesCall ''rsmachiner-user-code'' ''acme/''])
   \<and> HandleRequest (deployment 0 False emptyNamespace) \<lparr>RequestBody = ''size=20000000''\<rparr> =
     HandleRequest (deployment 0 True emptyNamespace) \<lparr>RequestBody = ''size=20000000''\<rparr>
   \<and> HandleRequest (deployment 0 False emptyNamespace) \<lparr>RequestBody = ''size=1''\<rparr> =
     ((\<lparr>StatusCode = 400, Headers = [], Body = ''Invalid User Request''\<rparr>, None),
      [GetItemCall ''users'' ''sub-1'',
       ListObjectsPagesCall ''rsmachiner-user-code'' ''acme/''])
   \<and> HandleRequest (deployment 0 False emptyNamespace) \<lparr>RequestBody = ''size=1''\<rparr> =
     HandleRequest (deployment 1 True emptyNamespace) \<lparr>RequestBody = ''size=1''\<rparr>
   \<and> fst (HandleRequest (deployment 0 False emptyNamespace) \<lparr>RequestBody = ''size=1''\<rparr>) \<noteq>
     fst (HandleRequest (deployment 0 False emptyNamespace)
            \<lparr>RequestBody = ''size=20000000''\<rparr>)"
  by code_simp

text \<open>
  C2, amended. When the account record found for the request has \<open>payed = false\<close>, the
  validation fails whatever the tier, the usage and the file size are: the handler
  answers 400 and signs nothing. The paid flag is tested after the quota check, so the
  body is the quota message when that check has failed and \<open>Invalid User Request\<close>
  otherwise.
\<close>

theorem unpaid_account_denied:
  assumes "NewSession env = None"
    and "Unmarshal env (RequestBody event) = Inr user"
    and "GetItem env (Getenv env ''DYNAMO_TABLE'') (Sub user) = Inr item"
    and "item \<noteq> []"
    and "UnmarshalMap env item = Inr dUser"
    and "\<not> Payed dUser"
  shows "fst (fst (validateUser env user)) = False
    \<and> StatusCode (fst (fst (HandleRequest env event))) = 400
    \<and> Body (fst (fst (HandleRequest env event))) \<in>
        {''Invalid User Request'', ''Maximum amount of stored data exceeded''}
    \<and> (Body (fst (fst (HandleRequest env event))) = ''Invalid User Request'') =
        (snd (fst (verifyUserGrants env
           (user\<lparr>CompanyID := CompanyID dUser, ServiceTier := ServiceTier dUser,
                 Payed := Payed dUser\<rparr>))) = None)
    \<and> presignCalls (snd (HandleRequest env event)) = []"
proof -
  let ?user' = "user\<lparr>CompanyID := CompanyID dUser, ServiceTier := ServiceTier dUser,
                      Payed := Payed dUser\<rparr>"
  have v: "fst (validateUser env user) = (False, snd (fst (verifyUserGrants env ?user')))"
    using assms by (simp add: validateUser_resolved Let_def)
  then have invalid:
    "\<not> (fst (fst (validateUser env user)) \<and> snd (fst (validateUser env user)) = None)"
    by simp
  have resp: "fst (fst (HandleRequest env event)) =
      \<lparr>StatusCode = 400, Headers = [],
       Body = (case snd (fst (verifyUserGrants env ?user')) of
                 Some e \<Rightarrow> message e | None \<Rightarrow> ''Invalid User Request'')\<rparr>"
    using HandleRequest_invalid [OF assms(1) assms(2) invalid] v by simp
  have calls: "presignCalls (snd (HandleRequest env event)) = []"
    using HandleRequest_rejected [OF assms(2) invalid] by simp
  from verifyUserGrants_error [of env ?user'] v resp calls show ?thesis
    by auto
qed

text \<open>The specification's scenario: unpaid, tier 2, usage 0, one byte requested.\<close>

theorem unpaid_account_denied_witness:
  "\<not> Payed \<lparr>Email = '''', Sub = ''sub-1'', CompanyID = ''acme'', UserName = '''',
             FileRequest = '''', FileSize = 0, Payed = False, ServiceTier = 2\<rparr>
   \<and> StatusCode (fst (fst (HandleRequest (deployment 2 False emptyNamespace)
         \<lparr>RequestBody = ''size=1''\<rparr>))) = 400
   \<and> Body (fst (fst (HandleRequest (deployment 2 False emptyNamespace)
         \<lparr>RequestBody = ''size=1''\<rparr>))) = ''Invalid User Request''
   \<and> presignCalls (snd (HandleRequest (deployment 2 False emptyNamespace)
         \<lparr>RequestBody = ''size=1''\<rparr>)) = []"
proof -
  let ?env = "deployment 2 False emptyNamespace"
  let ?event = "\<lparr>RequestBody = ''size=1''\<rparr>"
  let ?d = "\<lparr>Email = '''', Sub = ''sub-1'', CompanyID = ''acme'', UserName = '''',
             FileRequest = '''', FileSize = 0, Payed = False, ServiceTier = 2\<rparr>"
  have h1: "NewSession ?env = None"
    by (simp add: deployment_def)
  have h2: "Unmarshal ?env (RequestBody ?event) = Inr (request '''' 1)"
    by (simp add: deployment_def decodeBody_def)
  have h3: "GetItem ?env (Getenv ?env ''DYNAMO_TABLE'') (Sub (request '''' 1)) =
      Inr (storedItem 2 False)"
    by (simp add: deployment_def request_def)
  have h4: "storedItem 2 False \<noteq> []"
    by (simp add: storedItem_def)
  have h5: "UnmarshalMap ?env (storedItem 2 False) = Inr ?d"
    by (simp add: deployment_def decodeItem_def storedItem_def)
  have h6: "\<not> Payed ?d"
    by simp
  have body: "Body (fst (fst (HandleRequest ?env ?event))) = ''Invalid User Request''"
    by code_simp
  from unpaid_account_denied [OF h1 h2 h3 h4 h5 h6] body show ?thesis
    by simp
qed

section \<open>The company id of the request\<close>

text \<open>
  C3. Two requests that decode to the same user but for the client-supplied
  \<open>company_id\<close> (absent, that is empty, in one of them or not) get the same response
  and cause the same calls to the backends. Once the account record is found, the
  company id is the record's: the listing prefix is the record's company id followed by
  \<open>/\<close>, and the key that is signed is that prefix followed by the requested file.
\<close>

theorem client_company_id_ignored:
  assumes "Unmarshal env (RequestBody e1) = Inr user"
    and "Unmarshal env (RequestBody e2) = Inr (user\<lparr>CompanyID := c\<rparr>)"
  shows "HandleRequest env e1 = HandleRequest env e2
    \<and> (\<forall>item dUser.
          GetItem env (Getenv env ''DYNAMO_TABLE'') (Sub user) = Inr item \<and> item \<noteq> [] \<and>
          UnmarshalMap env item = Inr dUser \<longrightarrow>
          CompanyID (fst (snd (validateUser env (user\<lparr>CompanyID := c\<rparr>)))) = CompanyID dUser
          \<and> snd (snd (validateUser env (user\<lparr>CompanyID := c\<rparr>))) =
              [GetItemCall (Getenv env ''DYNAMO_TABLE'') (Sub user),
               ListObjectsPagesCall (Getenv env ''BUCKET'') (CompanyID dUser @ ''/'')]
          \<and> snd (signURLForUser env (fst (snd (validateUser env (user\<lparr>CompanyID := c\<rparr>))))) =
              [PresignCall ''rsmachiner-user-code''
                 (CompanyID dUser @ ''/'' @ FileRequest user) 7200])"
proof (intro conjI allI impI)
  obtain v err u' calls where a: "validateUser env user = ((v, err), u', calls)"
    by (metis prod.exhaust)
  obtain w err2 u2 calls2 where
    b: "validateUser env (user\<lparr>CompanyID := c\<rparr>) = ((w, err2), u2, calls2)"
    by (metis prod.exhaust)
  from validateUser_CompanyID [where env = env and u = user and c = c] a b
  have "w = v" "err2 = err" "calls2 = calls" "v \<longrightarrow> u2 = u'"
    by simp_all
  with a b assms show "HandleRequest env e1 = HandleRequest env e2"
    by (auto simp add: HandleRequest_def Let_def split: option.splits)
next
  fix item dUser
  assume l: "GetItem env (Getenv env ''DYNAMO_TABLE'') (Sub user) = Inr item \<and> item \<noteq> [] \<and>
    UnmarshalMap env item = Inr dUser"
  let ?u = "user\<lparr>CompanyID := c\<rparr>"
  from l have l1: "GetItem env (Getenv env ''DYNAMO_TABLE'') (Sub ?u) = Inr item"
    and l2: "item \<noteq> []" and l3: "UnmarshalMap env item = Inr dUser"
    by simp_all
  have r: "validateUser env ?u =
    (let user' = ?u\<lparr>CompanyID := CompanyID dUser, ServiceTier := ServiceTier dUser,
                     Payed := Payed dUser\<rparr>;
         r = fst (verifyUserGrants env user')
     in ((fst r \<and> snd r = None \<and> Payed dUser, snd r), user',
         [GetItemCall (Getenv env ''DYNAMO_TABLE'') (Sub ?u),
          ListObjectsPagesCall (Getenv env ''BUCKET'') (CompanyID dUser @ ''/'')]))"
    by (rule validateUser_resolved [OF l1 l2 l3])
  show "CompanyID (fst (snd (validateUser env ?u))) = CompanyID dUser"
    by (simp add: r Let_def)
  show "snd (snd (validateUser env ?u)) =
      [GetItemCall (Getenv env ''DYNAMO_TABLE'') (Sub user),
       ListObjectsPagesCall (Getenv env ''BUCKET'') (CompanyID dUser @ ''/'')]"
    by (simp add: r Let_def)
  show "snd (signURLForUser env (fst (snd (validateUser env ?u)))) =
      [PresignCall ''rsmachiner-user-code'' (CompanyID dUser @ ''/'' @ FileRequest user) 7200]"
    by (simp add: r Let_def signURLForUser_def)
qed

text \<open>A request without a company id and the same request claiming company \<open>evil\<close>.\<close>

theorem client_company_id_ignored_witness:
  "Unmarshal (deployment 0 True emptyNamespace) ''size=1'' = Inr (request '''' 1)
   \<and> Unmarshal (deployment 0 True emptyNamespace) ''size=1,company_id=evil'' =
       Inr ((request '''' 1)\<lparr>CompanyID := ''evil''\<rparr>)
   \<and> HandleRequest (deployment 0 True emptyNamespace) \<lparr>RequestBody = ''size=1''\<rparr> =
     HandleRequest (deployment 0 True emptyNamespace)
       \<lparr>RequestBody = ''size=1,company_id=evil''\<rparr>
   \<and> snd (HandleRequest (deployment 0 True emptyNamespace)
        \<lparr>RequestBody = ''size=1,company_id=evil''\<rparr>) =
       [GetItemCall ''users'' ''sub-1'',
        ListObjectsPagesCall ''rsmachiner-user-code'' ''acme/'',
        PresignCall ''rsmachiner-user-code'' ''acme/part.gcode'' 7200]"
proof -
  let ?env = "deployment 0 True emptyNamespace"
  have h1: "Unmarshal ?env (RequestBody \<lparr>RequestBody = ''size=1''\<rparr>) = Inr (request '''' 1)"
    by (simp add: deployment_def decodeBody_def)
  have h2: "Unmarshal ?env (RequestBody \<lparr>RequestBody = ''size=1,company_id=evil''\<rparr>) =
      Inr ((request '''' 1)\<lparr>CompanyID := ''evil''\<rparr>)"
    by (simp add: deployment_def decodeBody_def request_def)
  have calls: "snd (HandleRequest ?env \<lparr>RequestBody = ''size=1,company_id=evil''\<rparr>) =
       [GetItemCall ''users'' ''sub-1'',
        ListObjectsPagesCall ''rsmachiner-user-code'' ''acme/'',
        PresignCall ''rsmachiner-user-code'' ''acme/part.gcode'' 7200]"
    by code_simp
  from client_company_id_ignored [OF h1 h2] h1 h2 calls show ?thesis
    by simp
qed

section \<open>Unknown subjects\<close>

text \<open>
  C4. When the identity store has no item for the request's \<open>sub\<close>, the validation
  fails with the error \<open>User not found\<close>, the handler signs nothing and does not answer
  200, and with a session it answers 400 with the body \<open>User not found\<close>. Conversely,
  the validation succeeds only if the store returned a non-empty item for that \<open>sub\<close>.
\<close>

theorem unknown_subject_rejected:
  "(GetItem env (Getenv env ''DYNAMO_TABLE'') (Sub user) = Inr [] \<and>
    Unmarshal env (RequestBody event) = Inr user \<longrightarrow>
      fst (validateUser env user) = (False, Some (Error ''User not found''))
      \<and> StatusCode (fst (fst (HandleRequest env event))) \<noteq> 200
      \<and> presignCalls (snd (HandleRequest env event)) = []
      \<and> (NewSession env = None \<longrightarrow>
           fst (HandleRequest env event) =
             (\<lparr>StatusCode = 400, Headers = [], Body = ''User not found''\<rparr>, None)))
   \<and> (fst (fst (validateUser env user)) \<longrightarrow>
        (\<exists>item. GetItem env (Getenv env ''DYNAMO_TABLE'') (Sub user) = Inr item \<and> item \<noteq> []))"
proof (intro conjI impI)
  assume a: "GetItem env (Getenv env ''DYNAMO_TABLE'') (Sub user) = Inr [] \<and>
    Unmarshal env (RequestBody event) = Inr user"
  then have v: "fst (validateUser env user) = (False, Some (Error ''User not found''))"
    by (simp add: validateUser_not_found)
  then have invalid:
    "\<not> (fst (fst (validateUser env user)) \<and> snd (fst (validateUser env user)) = None)"
    by simp
  show "fst (validateUser env user) = (False, Some (Error ''User not found''))"
    by (rule v)
  show "StatusCode (fst (fst (HandleRequest env event))) \<noteq> 200"
    using HandleRequest_rejected [OF _ invalid] a by simp
  show "presignCalls (snd (HandleRequest env event)) = []"
    using HandleRequest_rejected [OF _ invalid] a by simp
  show "fst (HandleRequest env event) =
             (\<lparr>StatusCode = 400, Headers = [], Body = ''User not found''\<rparr>, None)"
    if "NewSession env = None"
    using HandleRequest_invalid [OF that _ invalid] a v by simp
next
  assume "fst (fst (validateUser env user))"
  then show "\<exists>item. GetItem env (Getenv env ''DYNAMO_TABLE'') (Sub user) = Inr item \<and> item \<noteq> []"
    using validateUser_valid by blast
qed

text \<open>The subject \<open>nobody\<close> is not in the store; the subject \<open>sub-1\<close> is, and is valid.\<close>

theorem unknown_subject_rejected_witness:
  "GetItem (deployment 0 True emptyNamespace) ''users'' ''nobody'' = Inr []
   \<and> HandleRequest (deployment 0 True emptyNamespace) \<lparr>RequestBody = ''sub=nobody''\<rparr> =
       ((\<lparr>StatusCode = 400, Headers = [], Body = ''User not found''\<rparr>, None),
        [GetItemCall ''users'' ''nobody''])
   \<and> fst (fst (validateUser (deployment 0 True emptyNamespace) (request '''' 1)))
   \<and> GetItem (deployment 0 True emptyNamespace) ''users'' ''sub-1'' = Inr (storedItem 0 True)"
proof -
  let ?env = "deployment 0 True emptyNamespace"
  let ?event = "\<lparr>RequestBody = ''sub=nobody''\<rparr>"
  let ?user = "(request '''' 1)\<lparr>Sub := ''nobody''\<rparr>"
  have h1: "GetItem ?env (Getenv ?env ''DYNAMO_TABLE'') (Sub ?user) = Inr []"
    by (simp add: deployment_def)
  have h2: "Unmarshal ?env (RequestBody ?event) = Inr ?user"
    by (simp add: deployment_def decodeBody_def)
  have h3: "NewSession ?env = None"
    by (simp add: deployment_def)
  have calls: "snd (HandleRequest ?env ?event) = [GetItemCall ''users'' ''nobody'']"
    by code_simp
  have valid: "fst (fst (validateUser ?env (request '''' 1)))"
    by code_simp
  have found: "GetItem ?env ''users'' ''sub-1'' = Inr (storedItem 0 True)"
     and missing: "GetItem ?env ''users'' ''nobody'' = Inr []"
    by (simp_all add: deployment_def)
  from unknown_subject_rejected [of ?env ?user ?event] h1 h2 h3
  have "fst (HandleRequest ?env ?event) =
      (\<lparr>StatusCode = 400, Headers = [], Body = ''User not found''\<rparr>, None)"
    by blast
  with calls valid found missing show ?thesis
    by (simp add: prod_eq_iff)
qed

section \<open>The usage accountant\<close>

text \<open>
  What \<open>calculateObjectSize\<close> does with the pages it is given: it returns the sum of the
  sizes of all objects of all pages delivered, the callback runs on every page (the page
  counter ends at the number of pages) and never stops the enumeration. No objects give
  0. The sum is an \<open>int64\<close> sum; it is the exact integer sum whenever that fits.
\<close>

lemma calculateObjectSize_delivered:
  "fst (calculateObjectSize env user) =
      sum_list (map Size (enumerated (S3Listing env (listRequest env user))))
   \<and> fst (ListObjectsPages (S3Listing env (listRequest env user)) pageCallback (0, 0)) =
       (of_nat (length (pages (S3Listing env (listRequest env user)))),
        fst (calculateObjectSize env user))
   \<and> (enumerated (S3Listing env (listRequest env user)) = [] \<longrightarrow>
        fst (calculateObjectSize env user) = 0)
   \<and> (- (2 ^ 63) \<le> sum_list (map (\<lambda>object. sint (Size object))
          (enumerated (S3Listing env (listRequest env user))))
      \<and> sum_list (map (\<lambda>object. sint (Size object))
          (enumerated (S3Listing env (listRequest env user)))) < 2 ^ 63
      \<longrightarrow>
       sint (fst (calculateObjectSize env user)) =
         sum_list (map (\<lambda>object. sint (Size object))
           (enumerated (S3Listing env (listRequest env user)))))"
proof -
  let ?l = "S3Listing env (listRequest env user)"
  have total: "fst (calculateObjectSize env user) = sum_list (map Size (enumerated ?l))"
    by (simp add: calculateObjectSize_eq)
  have visited: "fst (ListObjectsPages ?l pageCallback (0, 0)) =
      (of_nat (length (pages ?l)), fst (calculateObjectSize env user))"
    by (simp add: total ListObjectsPages_def EachPage_pageCallback enumerated_def)
  have empty: "enumerated ?l = [] \<longrightarrow> fst (calculateObjectSize env user) = 0"
    by (simp add: total)
  have "sint (fst (calculateObjectSize env user)) =
      signed_take_bit 63 (sum_list (map (\<lambda>object. sint (Size object)) (enumerated ?l)))"
    by (simp add: total sint_sum_list comp_def)
  then have exact:
    "- (2 ^ 63) \<le> sum_list (map (\<lambda>object. sint (Size object)) (enumerated ?l))
      \<and> sum_list (map (\<lambda>object. sint (Size object)) (enumerated ?l)) < 2 ^ 63 \<longrightarrow>
       sint (fst (calculateObjectSize env user)) =
         sum_list (map (\<lambda>object. sint (Size object)) (enumerated ?l))"
    by (simp add: signed_take_bit_int_eq_self)
  from total visited empty exact show ?thesis
    by blast
qed

text \<open>Two pages of three objects of 1,000,000 bytes each give 6,000,000.\<close>

lemma calculateObjectSize_two_pages:
  "fst (calculateObjectSize
          (deployment 0 True
             \<lparr>pages = [objectsOfSize 3 1000000, objectsOfSize 3 1000000], failure = None\<rparr>)
          (request ''acme'' 1)) = 6000000"
  by code_simp

lemma sum_list_filter_split:
  "sum_list (map f (filter P xs)) =
     sum_list (map f (filter (\<lambda>x. P x \<and> \<not> Q x) xs)) +
     (sum_list (map f (filter (\<lambda>x. P x \<and> Q x) xs)) :: int64)"
  by (induction xs) simp_all

text \<open>
  C5. The specification has \<open>calculateObjectSize\<close> return the exact sum of the sizes of
  all objects under the prefix \<open>CompanyID + "/"\<close>, and its own comment says it calculates
  the total space a company is using. The list request it sends carries the delimiter
  \<open>/\<close>, so S3 leaves every object whose key has a further \<open>/\<close> after the prefix out of
  \<open>Contents\<close>: against a bucket holding \<open>objects\<close>, the value returned falls short of the
  total under the prefix by the sizes of those nested objects. \<open>signURLForUser\<close> signs
  such keys, the requested file name being the client's text.
\<close>

theorem calculateObjectSize_misses_nested_keys:
  assumes "enumerated (S3Listing env (listRequest env user)) =
      s3Contents objects (listRequest env user)"
  shows "sum_list (map Size (underPrefix objects (CompanyID user @ ''/''))) =
      fst (calculateObjectSize env user) +
      sum_list (map Size (nestedUnder objects (listRequest env user)))"
proof -
  have "fst (calculateObjectSize env user) =
      sum_list (map Size (s3Contents objects (listRequest env user)))"
    using assms by (simp add: calculateObjectSize_eq)
  moreover have "Prefix (listRequest env user) = CompanyID user @ ''/''"
    by (simp add: listRequest_def)
  ultimately show ?thesis
    using sum_list_filter_split
      [of Size "\<lambda>object. hasPrefix (CompanyID user @ ''/'') (Key object)" objects
          "\<lambda>object. rolledUp (listRequest env user) (Key object)"]
    by (simp add: s3Contents_def underPrefix_def nestedUnder_def)
qed

text \<open>
  A Free account whose namespace holds one object of 20,000,000 bytes under
  \<open>acme/jobs/\<close>: the usage counts as 0, and a further upload to \<open>acme/jobs/part.gcode\<close> is
  signed with a 200 where the quota rule denies.
\<close>

theorem calculateObjectSize_misses_nested_keys_witness:
  "enumerated (S3Listing
       (storeDeployment 0 True [\<lparr>Key = ''acme/jobs/part.gcode'', Size = 20000000\<rparr>])
       (listRequest
          (storeDeployment 0 True [\<lparr>Key = ''acme/jobs/part.gcode'', Size = 20000000\<rparr>])
          (request ''acme'' 1))) =
     s3Contents [\<lparr>Key = ''acme/jobs/part.gcode'', Size = 20000000\<rparr>]
       (listRequest
          (storeDeployment 0 True [\<lparr>Key = ''acme/jobs/part.gcode'', Size = 20000000\<rparr>])
          (request ''acme'' 1))
   \<and> sum_list (map Size (underPrefix
        [\<lparr>Key = ''acme/jobs/part.gcode'', Size = 20000000\<rparr>] ''acme/'')) = 20000000
   \<and> fst (calculateObjectSize
        (storeDeployment 0 True [\<lparr>Key = ''acme/jobs/part.gcode'', Size = 20000000\<rparr>])
        (request ''acme'' 1)) = 0
   \<and> \<not> spec_decide 0 20000000 1
   \<and> StatusCode (fst (fst (HandleRequest
        (storeDeployment 0 True [\<lparr>Key = ''acme/jobs/part.gcode'', Size = 20000000\<rparr>])
        \<lparr>RequestBody = ''size=1,file_request=jobs/part.gcode''\<rparr>))) = 200
   \<and> presignCalls (snd (HandleRequest
        (storeDeployment 0 True [\<lparr>Key = ''acme/jobs/part.gcode'', Size = 20000000\<rparr>])
        \<lparr>RequestBody = ''size=1,file_request=jobs/part.gcode''\<rparr>)) =
       [PresignCall ''rsmachiner-user-code'' ''acme/jobs/part.gcode'' 7200]"
proof -
  let ?objects = "[\<lparr>Key = ''acme/jobs/part.gcode'', Size = 20000000\<rparr>]"
  let ?env = "storeDeployment 0 True ?objects"
  let ?user = "request ''acme'' 1"
  let ?event = "\<lparr>RequestBody = ''size=1,file_request=jobs/part.gcode''\<rparr>"
  have h: "enumerated (S3Listing ?env (listRequest ?env ?user)) =
      s3Contents ?objects (listRequest ?env ?user)"
    by (simp add: storeDeployment_def enumerated_def)
  have total: "sum_list (map Size (underPrefix ?objects ''acme/'')) = 20000000"
    by code_simp
  have nested: "sum_list (map Size (nestedUnder ?objects (listRequest ?env ?user))) = 20000000"
    by code_simp
  have company: "CompanyID ?user @ ''/'' = ''acme/''"
    by (simp add: request_def)
  have rule: "\<not> spec_decide 0 20000000 1"
    by (simp add: spec_decide_def spec_ceiling_def)
  have status: "StatusCode (fst (fst (HandleRequest ?env ?event))) = 200"
    by code_simp
  have signed: "presignCalls (snd (HandleRequest ?env ?event)) =
      [PresignCall ''rsmachiner-user-code'' ''acme/jobs/part.gcode'' 7200]"
    by code_simp
  from calculateObjectSize_misses_nested_keys [OF h]
  have "fst (calculateObjectSize ?env ?user) = 0"
    unfolding company total nested by simp
  with h total rule status signed show ?thesis
    by simp
qed

section \<open>Errors of the backends\<close>

text \<open>
  C6. The specification has every error of a backend returned up and the authorization
  aborted with a 400. The errors of the identity lookup and of the signer are (see
  \<open>validateUser\<close> and \<open>signURLForUser\<close>), the error of the usage enumeration is not:
  \<open>calculateObjectSize\<close> drops what \<open>ListObjectsPages\<close> returns, so the handler answers
  a listing that failed exactly as it answers the same pages delivered without a failure.
\<close>

theorem enumeration_failure_swallowed:
  "HandleRequest (withoutFailures env) event = HandleRequest env event"
proof -
  have "verifyUserGrants (withoutFailures env) u = verifyUserGrants env u" for u
    by (simp add: verifyUserGrants_def calculateObjectSize_withoutFailures)
  then have "validateUser (withoutFailures env) u = validateUser env u" for u
    by (simp add: validateUser_def withoutFailures_fields cong: sum.case_cong if_cong)
  moreover have "signURLForUser (withoutFailures env) u = signURLForUser env u" for u
    by (simp add: signURLForUser_def withoutFailures_fields)
  ultimately show ?thesis
    by (simp add: HandleRequest_def withoutFailures_fields
        cong: sum.case_cong option.case_cong if_cong)
qed

text \<open>
  The first listing request fails: the usage counts as 0 and the Free account gets its
  signed URL with a 200.
\<close>

theorem enumeration_failure_swallowed_witness:
  "failure (S3Listing
       (deployment 0 True
          \<lparr>pages = [], failure = Some (Error ''RequestError: send request failed'')\<rparr>)
       \<lparr>Bucket = ''rsmachiner-user-code'', Prefix = ''acme/'', Delimiter = ''/''\<rparr>) =
       Some (Error ''RequestError: send request failed'')
   \<and> HandleRequest
       (deployment 0 True
          \<lparr>pages = [], failure = Some (Error ''RequestError: send request failed'')\<rparr>)
       \<lparr>RequestBody = ''size=1''\<rparr> =
     HandleRequest
       (withoutFailures (deployment 0 True
          \<lparr>pages = [], failure = Some (Error ''RequestError: send request failed'')\<rparr>))
       \<lparr>RequestBody = ''size=1''\<rparr>
   \<and> StatusCode (fst (fst (HandleRequest
       (deployment 0 True
          \<lparr>pages = [], failure = Some (Error ''RequestError: send request failed'')\<rparr>)
       \<lparr>RequestBody = ''size=1''\<rparr>))) = 200
   \<and> presignCalls (snd (HandleRequest
       (deployment 0 True
          \<lparr>pages = [], failure = Some (Error ''RequestError: send request failed'')\<rparr>)
       \<lparr>RequestBody = ''size=1''\<rparr>)) =
       [PresignCall ''rsmachiner-user-code'' ''acme/part.gcode'' 7200]"
proof -
  let ?env = "deployment 0 True
    \<lparr>pages = [], failure = Some (Error ''RequestError: send request failed'')\<rparr>"
  let ?event = "\<lparr>RequestBody = ''size=1''\<rparr>"
  have f: "failure (S3Listing ?env
      \<lparr>Bucket = ''rsmachiner-user-code'', Prefix = ''acme/'', Delimiter = ''/''\<rparr>) =
      Some (Error ''RequestError: send request failed'')"
    by (simp add: deployment_def)
  have s: "StatusCode (fst (fst (HandleRequest ?env ?event))) = 200"
    by code_simp
  have p: "presignCalls (snd (HandleRequest ?env ?event)) =
      [PresignCall ''rsmachiner-user-code'' ''acme/part.gcode'' 7200]"
    by code_simp
  from enumeration_failure_swallowed [of ?env ?event] f s p show ?thesis
    by simp
qed

section \<open>Status codes\<close>

text \<open>
  C7. The specification has exactly the status codes 200 and 400. When
  \<open>session.NewSession\<close> fails, the handler returns a response whose \<open>StatusCode\<close> is not
  set: it is 0, with the error's message as the body. On every other path the status is
  200 or 400 (\<open>HandleRequest_status_with_session\<close>).
\<close>

theorem session_failure_status_zero:
  "NewSession env = Some err \<Longrightarrow>
   HandleRequest env event =
     ((\<lparr>StatusCode = 0, Headers = [], Body = message err\<rparr>, None), [])"
  by (simp add: HandleRequest_def)

theorem session_failure_status_zero_witness:
  "NewSession ((deployment 0 True emptyNamespace)
      \<lparr>NewSession := Some (Error ''failed to load shared config file'')\<rparr>) =
     Some (Error ''failed to load shared config file'')
   \<and> HandleRequest ((deployment 0 True emptyNamespace)
        \<lparr>NewSession := Some (Error ''failed to load shared config file'')\<rparr>)
        \<lparr>RequestBody = ''size=1''\<rparr> =
       ((\<lparr>StatusCode = 0, Headers = [], Body = ''failed to load shared config file''\<rparr>, None),
        [])
   \<and> (0 :: int) \<noteq> 200 \<and> (0 :: int) \<noteq> 400"
proof -
  let ?env = "(deployment 0 True emptyNamespace)
      \<lparr>NewSession := Some (Error ''failed to load shared config file'')\<rparr>"
  have h: "NewSession ?env = Some (Error ''failed to load shared config file'')"
    by simp
  from session_failure_status_zero [OF h, of "\<lparr>RequestBody = ''size=1''\<rparr>"] h show ?thesis
    by simp
qed

section \<open>The requested file size\<close>

text \<open>
  C8, as the specification states it: a \<open>file_size\<close> below 0, or above a sane ceiling,
  is rejected and never reaches the quota arithmetic. The handler has no such check. A
  request for -1 bytes is accepted and signed; so is a request for \<open>2^63 - 1\<close> bytes
  on a namespace that holds one byte, because \<open>totalSize + int64(FileSize)\<close> wraps around
  to a negative number.
\<close>

theorem unvalidated_file_size_accepted:
  "Unmarshal (deployment 0 True emptyNamespace) ''size=-1'' = Inr (request '''' (- 1))
   \<and> sint (FileSize (request '''' (- 1))) = - 1
   \<and> HandleRequest (deployment 0 True emptyNamespace) \<lparr>RequestBody = ''size=-1''\<rparr> =
       ((\<lparr>StatusCode = 200,
          Headers = [(''Access-Control-Allow-Origin'', ''*''),
                     (''Access-Control-Allow-Methods'', ''*'')],
          Body = ''{url:https://s3.example/rsmachiner-user-code/acme/part.gcode}''\<rparr>, None),
        [GetItemCall ''users'' ''sub-1'',
         ListObjectsPagesCall ''rsmachiner-user-code'' ''acme/'',
         PresignCall ''rsmachiner-user-code'' ''acme/part.gcode'' 7200])
   \<and> sint (FileSize (request '''' 9223372036854775807)) = 9223372036854775807
   \<and> fst (calculateObjectSize
        (deployment 0 True \<lparr>pages = [objectsOfSize 1 1], failure = None\<rparr>)
        (request ''acme'' 0)) = 1
   \<and> StatusCode (fst (fst (HandleRequest
        (deployment 0 True \<lparr>pages = [objectsOfSize 1 1], failure = None\<rparr>)
        \<lparr>RequestBody = ''size=9223372036854775807''\<rparr>))) = 200"
  by code_simp

text \<open>
  C8, amended: a request whose \<open>file_size\<close> is above the ceiling of the account's tier
  (10,000,000 for tier 0 and unrecognised tiers, 40,000,000,000 for tier 1,
  1,000,000,000,000 for tier 2) is rejected and nothing is signed, provided the usage
  is not negative and usage plus file size fits in \<open>int64\<close>. Here \<open>user'\<close> is the user as
  \<open>validateUser\<close> leaves it, with the tier and the company of the account.
\<close>

theorem file_size_above_ceiling_rejected:
  assumes dec: "Unmarshal env (RequestBody event) = Inr user"
    and val: "validateUser env user = (r, user', calls)"
    and nonneg: "0 \<le> sint (fst (calculateObjectSize env user'))"
    and nowrap: "sint (fst (calculateObjectSize env user')) + sint (FileSize user) < 2 ^ 63"
    and big: "spec_ceiling (sint (ServiceTier user')) < sint (FileSize user)"
  shows "StatusCode (fst (fst (HandleRequest env event))) \<noteq> 200
    \<and> presignCalls (snd (HandleRequest env event)) = []"
proof -
  have invalid:
    "\<not> (fst (fst (validateUser env user)) \<and> snd (fst (validateUser env user)) = None)"
  proof
    assume ok: "fst (fst (validateUser env user)) \<and> snd (fst (validateUser env user)) = None"
    then obtain item dUser where
      l: "GetItem env (Getenv env ''DYNAMO_TABLE'') (Sub user) = Inr item" "item \<noteq> []"
         "UnmarshalMap env item = Inr dUser"
      using validateUser_valid by blast
    let ?u = "user\<lparr>CompanyID := CompanyID dUser, ServiceTier := ServiceTier dUser,
                   Payed := Payed dUser\<rparr>"
    have eq: "validateUser env user =
        ((fst (fst (verifyUserGrants env ?u)) \<and> snd (fst (verifyUserGrants env ?u)) = None
            \<and> Payed dUser, snd (fst (verifyUserGrants env ?u))), ?u,
         [GetItemCall (Getenv env ''DYNAMO_TABLE'') (Sub user),
          ListObjectsPagesCall (Getenv env ''BUCKET'') (CompanyID dUser @ ''/'')])"
      using validateUser_resolved [OF l] by (simp only: Let_def)
    have u: "user' = ?u"
      using eq val by (simp only: prod.inject)
    have g: "fst (fst (verifyUserGrants env ?u))"
      using ok unfolding eq fst_conv by blast
    have pos: "0 < spec_ceiling (sint (ServiceTier ?u))"
      by (simp add: spec_ceiling_def)
    from verifyUserGrants_granted [OF g]
    have le: "sint (fst (calculateObjectSize env ?u) + FileSize ?u)
        \<le> spec_ceiling (sint (ServiceTier ?u))"
      by simp
    have "sint (fst (calculateObjectSize env ?u) + FileSize ?u) =
        sint (fst (calculateObjectSize env ?u)) + sint (FileSize ?u)"
      using nonneg nowrap big pos unfolding u
      by (intro sint_add_no_wrap) simp_all
    with le nonneg big show False
      unfolding u by simp
  qed
  from HandleRequest_rejected [OF dec invalid] show ?thesis .
qed

text \<open>A Free account with an empty namespace asking for 20,000,000 bytes.\<close>

theorem file_size_above_ceiling_rejected_witness:
  "spec_ceiling 0 < sint (FileSize (request '''' 20000000))
   \<and> StatusCode (fst (fst (HandleRequest (deployment 0 True emptyNamespace)
        \<lparr>RequestBody = ''size=20000000''\<rparr>))) = 400
   \<and> presignCalls (snd (HandleRequest (deployment 0 True emptyNamespace)
        \<lparr>RequestBody = ''size=20000000''\<rparr>)) = []"
proof -
  let ?env = "deployment 0 True emptyNamespace"
  let ?event = "\<lparr>RequestBody = ''size=20000000''\<rparr>"
  let ?user = "request '''' 20000000"
  let ?user' = "fst (snd (validateUser ?env ?user))"
  have h1: "Unmarshal ?env (RequestBody ?event) = Inr ?user"
    by (simp add: deployment_def decodeBody_def)
  have h2: "validateUser ?env ?user =
      (fst (validateUser ?env ?user), ?user', snd (snd (validateUser ?env ?user)))"
    by simp
  have h3: "0 \<le> sint (fst (calculateObjectSize ?env ?user'))"
    by code_simp
  have h4: "sint (fst (calculateObjectSize ?env ?user')) + sint (FileSize ?user) < 2 ^ 63"
    by code_simp
  have h5: "spec_ceiling (sint (ServiceTier ?user')) < sint (FileSize ?user)"
    by code_simp
  have big: "spec_ceiling 0 < sint (FileSize ?user)"
    by code_simp
  have s: "StatusCode (fst (fst (HandleRequest ?env ?event))) = 400"
    by code_simp
  from file_size_above_ceiling_rejected [OF h1 h2 h3 h4 h5] big s show ?thesis
    by simp
qed

section \<open>The two revisions\<close>

text \<open>
  C9. The two \<open>verifyUserGrants\<close> disagree. On tier 1 the earlier revision applies a
  total-usage ceiling and can allow, the later one always denies; on tier 2 the earlier
  one always denies (its branch is empty), the later one applies a ceiling and can
  allow; on tier 0 the earlier one limits the file size and the number of objects, the
  later one the total usage.
\<close>

theorem revisions_disagree:
  "(\<exists>env user. ServiceTier user = 1 \<and> fst (fst (verifyUserGrants_main env user))
        \<and> \<not> fst (fst (verifyUserGrants env user)))
   \<and> (\<exists>env user. ServiceTier user = 2 \<and> \<not> fst (fst (verifyUserGrants_main env user))
        \<and> fst (fst (verifyUserGrants env user)))
   \<and> (\<exists>env user. ServiceTier user = 0 \<and> \<not> fst (fst (verifyUserGrants_main env user))
        \<and> fst (fst (verifyUserGrants env user)))"
proof (intro conjI)
  let ?env = "deployment 0 True emptyNamespace"
  let ?u1 = "(request ''acme'' 1)\<lparr>ServiceTier := 1\<rparr>"
  have "ServiceTier ?u1 = 1 \<and> fst (fst (verifyUserGrants_main ?env ?u1))
        \<and> \<not> fst (fst (verifyUserGrants ?env ?u1))"
    by code_simp
  then show "\<exists>env user. ServiceTier user = 1 \<and> fst (fst (verifyUserGrants_main env user))
        \<and> \<not> fst (fst (verifyUserGrants env user))"
    by blast
  let ?u2 = "(request ''acme'' 1)\<lparr>ServiceTier := 2\<rparr>"
  have "ServiceTier ?u2 = 2 \<and> \<not> fst (fst (verifyUserGrants_main ?env ?u2))
        \<and> fst (fst (verifyUserGrants ?env ?u2))"
    by code_simp
  then show "\<exists>env user. ServiceTier user = 2 \<and> \<not> fst (fst (verifyUserGrants_main env user))
        \<and> fst (fst (verifyUserGrants env user))"
    by blast
  let ?env6 = "deployment 0 True \<lparr>pages = [objectsOfSize 6 1], failure = None\<rparr>"
  let ?u0 = "request ''acme'' 1"
  have "ServiceTier ?u0 = 0 \<and> \<not> fst (fst (verifyUserGrants_main ?env6 ?u0))
        \<and> fst (fst (verifyUserGrants ?env6 ?u0))"
    by code_simp
  then show "\<exists>env user. ServiceTier user = 0 \<and> \<not> fst (fst (verifyUserGrants_main env user))
        \<and> fst (fst (verifyUserGrants env user))"
    by blast
qed

section \<open>The handler's error value\<close>

text \<open>
  C10. In both revisions the second value \<open>HandleRequest\<close> returns, the Go \<open>error\<close>, is
  \<open>nil\<close> for every environment and every event: every outcome is in the response.
\<close>

theorem HandleRequest_error_always_nil:
  "snd (fst (HandleRequest env event)) = None
   \<and> snd (fst (HandleRequest_main env event)) = None"
  by (simp add: HandleRequest_def HandleRequest_main_def Let_def
      split: option.splits sum.splits prod.splits)

theorem HandleRequest_error_always_nil_witness:
  "snd (fst (HandleRequest (deployment 0 True emptyNamespace)
        \<lparr>RequestBody = ''not json''\<rparr>)) = None
   \<and> StatusCode (fst (fst (HandleRequest (deployment 0 True emptyNamespace)
        \<lparr>RequestBody = ''not json''\<rparr>))) = 400
   \<and> snd (fst (HandleRequest_main (deployment 0 True emptyNamespace)
        \<lparr>RequestBody = ''size=1''\<rparr>)) = None
   \<and> StatusCode (fst (fst (HandleRequest_main (deployment 0 True emptyNamespace)
        \<lparr>RequestBody = ''size=1''\<rparr>))) = 200"
proof -
  let ?env = "deployment 0 True emptyNamespace"
  have a: "StatusCode (fst (fst (HandleRequest ?env \<lparr>RequestBody = ''not json''\<rparr>))) = 400"
    by code_simp
  have b: "StatusCode (fst (fst (HandleRequest_main ?env \<lparr>RequestBody = ''size=1''\<rparr>))) = 200"
    by code_simp
  from HandleRequest_error_always_nil [of ?env "\<lparr>RequestBody = ''not json''\<rparr>"]
    HandleRequest_error_always_nil [of ?env "\<lparr>RequestBody = ''size=1''\<rparr>"] a b
  show ?thesis
    by simp
qed

end
